theory Spec2Isabelle
  imports Complex_Main "HOL-Library.Multiset"
begin

section \<open>Data model\<close>

text \<open>
  Exceptions of the Python program, as values. Every \<^verbatim>\<open>raise\<close> that the modelled
  functions can reach is one of these.
\<close>

datatype error =
  KeyError string
  | ValueError string

text \<open>
  One row of a per-currency sheet of \<^verbatim>\<open>All-Xrates-Data.xlsx\<close>, as \<^verbatim>\<open>main\<close> builds it
  (the dictionary appended to \<^verbatim>\<open>data\<close>): columns \<^verbatim>\<open>Currency 1\<close>, \<^verbatim>\<open>Currency 2\<close>, \<^verbatim>\<open>Year\<close>,
  \<^verbatim>\<open>Month\<close>, \<^verbatim>\<open><curr> to USD\<close> and \<^verbatim>\<open>USD to <curr>\<close>. Python floats are idealised as
  real numbers (no rounding, no infinities, no NaN); \<^verbatim>\<open>Year\<close> and \<^verbatim>\<open>Month\<close> are integers.
  A data frame is the list of its rows, in index order.
\<close>

record rate_record =
  Currency1 :: string
  Currency2 :: string
  Year :: int
  Month :: int
  to_USD :: real
  from_USD :: real

type_synonym frame = "rate_record list"

definition period :: "rate_record \<Rightarrow> int \<times> int" where
  "period r = (Year r, Month r)"

text \<open>
  The files \<^verbatim>\<open>writing_all_file\<close> touches: the sheets of \<^verbatim>\<open>All-Xrates-Data.xlsx\<close>, by
  sheet name, and the sheets of the workbooks under \<^verbatim>\<open>Backups\<close>, by the \<^verbatim>\<open>(month, year)\<close>
  of the file name \<^verbatim>\<open>"<month> <year> All-Xrates-Data.xlsx"\<close> and the sheet name. A sheet
  that is absent is one that \<^verbatim>\<open>pd.read_excel\<close> fails to load.
\<close>

record store =
  hist :: "string \<rightharpoonup> frame"
  backups :: "(int \<times> int) \<times> string \<rightharpoonup> frame"

section \<open>The historical merge: \<^verbatim>\<open>writing_all_file\<close>\<close>

text \<open>
  Lines 354-360: the scan for the first row whose month and year are the current ones;
  \<^verbatim>\<open>index_to_delete\<close> stays \<^verbatim>\<open>-1\<close> (here \<open>None\<close>) when there is none, and the loop
  breaks at the first hit.
\<close>

fun index_to_delete :: "int \<Rightarrow> int \<Rightarrow> frame \<Rightarrow> nat option" where
  "index_to_delete current_year current_month [] = None"
| "index_to_delete current_year current_month (row # rows) =
     (if Month row = current_month \<and> Year row = current_year then Some 0
      else map_option Suc (index_to_delete current_year current_month rows))"

text \<open>\<^verbatim>\<open>existing_df.drop(index=i, inplace=True)\<close> on a frame with the default index.\<close>

definition drop_row :: "nat \<Rightarrow> frame \<Rightarrow> frame" where
  "drop_row i df = take i df @ drop (Suc i) df"

text \<open>Lines 354-369: the existing frame as it stands before the concatenation.\<close>

definition remove_current :: "int \<Rightarrow> int \<Rightarrow> frame \<Rightarrow> frame" where
  "remove_current current_year current_month existing_df =
     (case index_to_delete current_year current_month existing_df of
        None \<Rightarrow> existing_df
      | Some i \<Rightarrow> drop_row i existing_df)"

text \<open>
  \<^verbatim>\<open>drop_duplicates(subset=['Year','Month'])\<close> keeps, of the rows with one (Year, Month),
  the first: a row is dropped when its key was seen in an earlier row.
\<close>

fun drop_duplicates_seen :: "(int \<times> int) list \<Rightarrow> frame \<Rightarrow> frame" where
  "drop_duplicates_seen seen [] = []"
| "drop_duplicates_seen seen (row # rows) =
     (if period row \<in> set seen then drop_duplicates_seen seen rows
      else row # drop_duplicates_seen (period row # seen) rows)"

definition drop_duplicates :: "frame \<Rightarrow> frame" where
  "drop_duplicates df = drop_duplicates_seen [] df"

text \<open>
  \<^verbatim>\<open>sort_values(by=['Year','Month'], ascending=False)\<close>: a stable sort, descending by
  year and then by month. \<open>period_ge a b\<close> is the order of the keys.
\<close>

definition period_ge :: "rate_record \<Rightarrow> rate_record \<Rightarrow> bool" where
  "period_ge a b \<longleftrightarrow> Year b < Year a \<or> (Year a = Year b \<and> Month b \<le> Month a)"

definition period_gt :: "rate_record \<Rightarrow> rate_record \<Rightarrow> bool" where
  "period_gt a b \<longleftrightarrow> Year b < Year a \<or> (Year a = Year b \<and> Month b < Month a)"

fun insert_desc :: "rate_record \<Rightarrow> frame \<Rightarrow> frame" where
  "insert_desc x [] = [x]"
| "insert_desc x (y # ys) =
     (if period_ge x y then x # y # ys else y # insert_desc x ys)"

definition sort_values_desc :: "frame \<Rightarrow> frame" where
  "sort_values_desc df = foldr insert_desc df []"

text \<open>Python's \<^verbatim>\<open>max\<close> over a column: it raises on an empty one.\<close>

fun py_max :: "int list \<Rightarrow> error + int" where
  "py_max [] = Inl (ValueError ''max() arg is an empty sequence'')"
| "py_max (x # xs) = Inr (fold max xs x)"

text \<open>Lines 372-375: the frame written to the currency's sheet when the sheet loaded.\<close>

definition hist_df :: "int \<Rightarrow> int \<Rightarrow> frame \<Rightarrow> frame \<Rightarrow> frame" where
  "hist_df current_year current_month existing_df df =
     sort_values_desc
       (drop_duplicates (remove_current current_year current_month existing_df @ df))"

text \<open>
  \<^verbatim>\<open>writing_all_file(df, product)\<close>, with the clock reading \<open>(current_year, current_month)\<close>
  and the files as a \<open>store\<close>. When the sheet loads (the \<^verbatim>\<open>try\<close> branch) the merged frame
  goes to the sheet and the existing frame, after the removal of the current month's row,
  to the backup. When it does not load (the bare \<^verbatim>\<open>except\<close>, which is also the first run)
  the new frame, sorted, goes to both. The backup's name takes \<^verbatim>\<open>max(df['Month'])\<close> and
  \<^verbatim>\<open>max(df['Year'])\<close>; both branches raise there on an empty \<^verbatim>\<open>df\<close>, which \<^verbatim>\<open>main\<close> never
  passes (line 486). Failures of the writes themselves are outside the model.
\<close>

definition writing_all_file :: "int \<times> int \<Rightarrow> frame \<Rightarrow> string \<Rightarrow> store \<Rightarrow> error + store" where
  "writing_all_file now df product st =
     (case py_max (map Month df) of
        Inl e \<Rightarrow> Inl e
      | Inr month \<Rightarrow>
     (case py_max (map Year df) of
        Inl e \<Rightarrow> Inl e
      | Inr year \<Rightarrow>
     (case hist st product of
        Some existing_df \<Rightarrow>
          Inr (st\<lparr>hist := (hist st)(product \<mapsto> hist_df (fst now) (snd now) existing_df df),
                  backups := (backups st)(((month, year), product) \<mapsto>
                               remove_current (fst now) (snd now) existing_df)\<rparr>)
      | None \<Rightarrow>
          Inr (st\<lparr>hist := (hist st)(product \<mapsto> sort_values_desc df),
                  backups := (backups st)(((month, year), product) \<mapsto>
                               sort_values_desc df)\<rparr>))))"

text \<open>The sheet of a currency after a call, when the call returned.\<close>

definition persisted :: "error + store \<Rightarrow> string \<Rightarrow> frame option" where
  "persisted res product = (case res of Inl e \<Rightarrow> None | Inr st' \<Rightarrow> hist st' product)"

text \<open>The sheet of a backup workbook after a call, when the call returned.\<close>

definition backed_up :: "error + store \<Rightarrow> (int \<times> int) \<times> string \<Rightarrow> frame option" where
  "backed_up res key = (case res of Inl e \<Rightarrow> None | Inr st' \<Rightarrow> backups st' key)"

section \<open>Fetching and parsing: the loops of \<^verbatim>\<open>main\<close>\<close>

text \<open>
  Lines 429-449. One attempt is the whole \<^verbatim>\<open>try\<close> block (the request and the search of the
  page): it either raises, which the \<^verbatim>\<open>except\<close> catches, or yields \<^verbatim>\<open>lists\<close>. The outside
  world is the function \<open>attempt\<close>, from the number of the attempt (0 for the first) to its
  outcome, \<open>None\<close> for an exception. The result records \<^verbatim>\<open>lists\<close> (\<open>None\<close> when \<^verbatim>\<open>flag\<close> is
  still 1 after the loop), how many requests were made and how many times
  \<^verbatim>\<open>time.sleep(1)\<close> ran.
\<close>

record fetch_result =
  lists :: "string list option"
  requests :: nat
  slept :: nat

fun retry_loop :: "(nat \<Rightarrow> string list option) \<Rightarrow> nat \<Rightarrow> fetch_result \<Rightarrow> fetch_result" where
  "retry_loop attempt 0 res = res"
| "retry_loop attempt (Suc retry) res =
     (case attempt (requests res) of
        Some ls \<Rightarrow> res\<lparr>lists := Some ls, requests := Suc (requests res)\<rparr>
      | None \<Rightarrow>
          retry_loop attempt retry
            (res\<lparr>requests := Suc (requests res), slept := Suc (slept res)\<rparr>))"

definition fetch :: "(nat \<Rightarrow> string list option) \<Rightarrow> fetch_result" where
  "fetch attempt = retry_loop attempt 5 \<lparr>lists = None, requests = 0, slept = 0\<rparr>"

text \<open>\<^verbatim>\<open>lis.split(" ")\<close>: a split at every single space, so it never returns an empty list.\<close>

fun split_space :: "string \<Rightarrow> string list" where
  "split_space [] = [[]]"
| "split_space (c # cs) =
     (if c = CHR '' '' then [] # split_space cs
      else (case split_space cs of
              [] \<Rightarrow> [[c]]
            | w # ws \<Rightarrow> (c # w) # ws))"

text \<open>Lines 310-323, the dictionary of \<^verbatim>\<open>extract_date\<close>.\<close>

definition month_mapping :: "string \<rightharpoonup> int" where
  "month_mapping = map_of
     [(''Jan'', 1), (''Feb'', 2), (''Mar'', 3), (''Apr'', 4), (''May'', 5), (''Jun'', 6),
      (''Jul'', 7), (''Aug'', 8), (''Sep'', 9), (''Oct'', 10), (''Nov'', 11), (''Dec'', 12)]"

text \<open>
  \<^verbatim>\<open>extract_date(month, year)\<close>: a missing key raises \<^verbatim>\<open>KeyError\<close>; \<^verbatim>\<open>date(year, month, 1)\<close>
  raises \<^verbatim>\<open>ValueError\<close> for a year outside 1..9999. The date is (year, month, day).
\<close>

definition extract_date :: "string \<Rightarrow> int \<Rightarrow> error + int \<times> int \<times> int" where
  "extract_date month year =
     (case month_mapping month of
        None \<Rightarrow> Inl (KeyError month)
      | Some m \<Rightarrow>
          if 1 \<le> year \<and> year \<le> 9999 then Inr (year, m, 1)
          else Inl (ValueError ''year is out of range''))"

text \<open>
  Lines 469-472: \<^verbatim>\<open>try: fcrate = 1/crate\<close>, \<^verbatim>\<open>except: fcrate = 0\<close>. On a float the division
  raises exactly when the divisor is zero.
\<close>

definition inverse_rate :: "real \<Rightarrow> real" where
  "inverse_rate crate = (if crate = 0 then 0 else 1 / crate)"

text \<open>
  Lines 457-481, the body of the loop over \<^verbatim>\<open>lists\<close>: \<open>Inr None\<close> is the \<^verbatim>\<open>continue\<close> of a
  line with at most one token, \<open>Inr (Some row)\<close> the dictionary appended to \<^verbatim>\<open>data\<close>, \<open>Inl\<close>
  an exception (none is caught here). Python's \<^verbatim>\<open>float\<close> is the parameter \<open>float_of\<close>: it
  returns \<open>None\<close> where \<^verbatim>\<open>float\<close> raises \<^verbatim>\<open>ValueError\<close>. The conversion comes before the
  date, as in the source.
\<close>

definition parse_line ::
  "(string \<Rightarrow> real option) \<Rightarrow> string \<Rightarrow> int \<Rightarrow> string \<Rightarrow> error + rate_record option" where
  "parse_line float_of currency year lis =
     (case split_space lis of
        month # crate # extra \<Rightarrow>
          (case float_of crate of
             None \<Rightarrow> Inl (ValueError crate)
           | Some c \<Rightarrow>
               (case extract_date month year of
                  Inl e \<Rightarrow> Inl e
                | Inr (fyear, fmonth, fday) \<Rightarrow>
                    Inr (Some \<lparr>Currency1 = currency, Currency2 = ''USD'', Year = year,
                               Month = fmonth, to_USD = c, from_USD = inverse_rate c\<rparr>)))
      | _ \<Rightarrow> Inr None)"

text \<open>Lines 455-481: the loop over \<^verbatim>\<open>lists\<close>, appending to \<^verbatim>\<open>data\<close>.\<close>

fun parse_lists ::
  "(string \<Rightarrow> real option) \<Rightarrow> string \<Rightarrow> int \<Rightarrow> string list \<Rightarrow> frame \<Rightarrow> error + frame" where
  "parse_lists float_of currency year [] data = Inr data"
| "parse_lists float_of currency year (lis # rest) data =
     (case parse_line float_of currency year lis of
        Inl e \<Rightarrow> Inl e
      | Inr None \<Rightarrow> parse_lists float_of currency year rest data
      | Inr (Some row) \<Rightarrow> parse_lists float_of currency year rest (data @ [row]))"

text \<open>
  Lines 428-482: \<^verbatim>\<open>while year<=current_year\<close>. \<open>net year k\<close> is the outcome of the \<open>k\<close>-th
  attempt for \<open>year\<close>. A year whose five attempts all failed is skipped.
\<close>

function year_loop ::
  "(int \<Rightarrow> nat \<Rightarrow> string list option) \<Rightarrow> (string \<Rightarrow> real option) \<Rightarrow> string \<Rightarrow> int \<Rightarrow>
     int \<Rightarrow> frame \<Rightarrow> error + frame" where
  "year_loop net float_of currency current_year year data =
     (if year \<le> current_year then
        (case lists (fetch (net year)) of
           None \<Rightarrow> year_loop net float_of currency current_year (year + 1) data
         | Some ls \<Rightarrow>
             (case parse_lists float_of currency year ls data of
                Inl e \<Rightarrow> Inl e
              | Inr data' \<Rightarrow> year_loop net float_of currency current_year (year + 1) data'))
      else Inr data)"
  by pat_completeness auto
termination
  by (relation "measure (\<lambda>(net, float_of, currency, current_year, year, data).
        nat (current_year + 1 - year))") auto

text \<open>
  The input sheet (\<^verbatim>\<open>Inputs.xlsx\<close>): its columns \<^verbatim>\<open>Initial Currency\<close> and
  \<^verbatim>\<open>Fetched Year\<close>; the other columns are the record's extension.
\<close>

record input_row =
  Initial_Currency :: string
  Fetched_Year :: int

text \<open>
  A Python dictionary with string keys, as an association list read by \<open>map_of\<close>;
  \<open>dict_set\<close> is \<^verbatim>\<open>d[k] = v\<close>.
\<close>

type_synonym 'v dict = "(string \<times> 'v) list"

definition dict_set :: "string \<Rightarrow> 'v \<Rightarrow> 'v dict \<Rightarrow> 'v dict" where
  "dict_set k v d = (k, v) # filter (\<lambda>kv. fst kv \<noteq> k) d"

text \<open>
  \<^verbatim>\<open>update_input_file\<close>, lines 394-401: the frame it then writes to \<^verbatim>\<open>Inputs.xlsx\<close>. A
  currency that is no key of \<^verbatim>\<open>years\<close> raises \<^verbatim>\<open>KeyError\<close>, which is caught and passed.
\<close>

definition update_input_file ::
  "'a input_row_scheme list \<Rightarrow> int dict \<Rightarrow> int dict \<Rightarrow> 'a input_row_scheme list" where
  "update_input_file input_df months years =
     map (\<lambda>row. case map_of years (Initial_Currency row) of
                   Some fetch_date \<Rightarrow> row\<lparr>Fetched_Year := fetch_date\<rparr>
                 | None \<Rightarrow> row)
       input_df"

text \<open>
  The state of a run of \<^verbatim>\<open>main\<close>: the files, the dictionaries \<^verbatim>\<open>max_years\<close> and
  \<^verbatim>\<open>max_month\<close>.
\<close>

record run_state =
  files :: store
  max_years :: "int dict"
  max_month :: "int dict"

text \<open>
  Lines 417-482 for one row of the input sheet: the records fetched for its currency.
  The world of a run, \<open>net\<close>, gives the outcome of each attempt by the index of the row,
  the year and the number of the attempt; the clock of a run, \<open>now\<close>, is the pair
  (current year, current month), taken as constant over the run.
\<close>

definition fetch_currency ::
  "(nat \<Rightarrow> int \<Rightarrow> nat \<Rightarrow> string list option) \<Rightarrow> (string \<Rightarrow> real option) \<Rightarrow> int \<times> int \<Rightarrow>
     nat \<Rightarrow> 'a input_row_scheme \<Rightarrow> error + frame" where
  "fetch_currency net float_of now index row =
     year_loop (net index) float_of (Initial_Currency row) (fst now) (Fetched_Year row) []"

text \<open>Lines 416-491: the loop over the rows of the input sheet, each with its index.\<close>

fun currency_loop ::
  "(nat \<Rightarrow> int \<Rightarrow> nat \<Rightarrow> string list option) \<Rightarrow> (string \<Rightarrow> real option) \<Rightarrow> int \<times> int \<Rightarrow>
     (nat \<times> 'a input_row_scheme) list \<Rightarrow> run_state \<Rightarrow> error + run_state" where
  "currency_loop net float_of now [] rs = Inr rs"
| "currency_loop net float_of now ((index, row) # rows) rs =
     (if Initial_Currency row = ''USD'' then currency_loop net float_of now rows rs
      else
        (case fetch_currency net float_of now index row of
           Inl e \<Rightarrow> Inl e
         | Inr df \<Rightarrow>
             if df = [] then currency_loop net float_of now rows rs
             else
               (case py_max (map Month df) of
                  Inl e \<Rightarrow> Inl e
                | Inr m \<Rightarrow>
               (case py_max (map Year df) of
                  Inl e \<Rightarrow> Inl e
                | Inr y \<Rightarrow>
               (case writing_all_file now df (Initial_Currency row) (files rs) of
                  Inl e \<Rightarrow> Inl e
                | Inr st' \<Rightarrow>
                    currency_loop net float_of now rows
                      (rs\<lparr>files := st',
                          max_years := dict_set (Initial_Currency row) y (max_years rs),
                          max_month := dict_set (Initial_Currency row) m (max_month rs)\<rparr>))))))"

text \<open>
  \<^verbatim>\<open>main\<close>: the files after the run, and the frame written to \<^verbatim>\<open>Inputs.xlsx\<close>, \<open>None\<close> when
  the run returns at line 493 without calling \<^verbatim>\<open>update_input_file\<close>.
\<close>

definition main ::
  "(nat \<Rightarrow> int \<Rightarrow> nat \<Rightarrow> string list option) \<Rightarrow> (string \<Rightarrow> real option) \<Rightarrow> int \<times> int \<Rightarrow>
     'a input_row_scheme list \<Rightarrow> store \<Rightarrow> error + store \<times> 'a input_row_scheme list option" where
  "main net float_of now input_df st =
     (case currency_loop net float_of now (enumerate 0 input_df)
             \<lparr>files = st, max_years = [], max_month = []\<rparr> of
        Inl e \<Rightarrow> Inl e
      | Inr rs \<Rightarrow>
          if max_years rs = [] \<or> max_month rs = [] then Inr (files rs, None)
          else Inr (files rs, Some (update_input_file input_df (max_month rs) (max_years rs))))"

section \<open>Unit conversion: \<^verbatim>\<open>convert_price_for_uom\<close>\<close>

text \<open>
  A row of the priced-item table: the columns the function reads and the column it
  writes (\<open>None\<close> is a missing value, NaN); every other column is the record's extension.
  Prices and factors are real numbers.
\<close>

record priced_item =
  Initial_Unit :: string
  Final_Unit :: string
  Initial_Price :: real
  UOM_Converted_Price :: "real option"

text \<open>\<^verbatim>\<open>str.lower\<close> on the ASCII letters; other characters are left as they are.\<close>

definition lower_char :: "char \<Rightarrow> char" where
  "lower_char c =
     (case map_of (zip ''ABCDEFGHIJKLMNOPQRSTUVWXYZ'' ''abcdefghijklmnopqrstuvwxyz'') c of
        Some l \<Rightarrow> l
      | None \<Rightarrow> c)"

definition lower :: "string \<Rightarrow> string" where
  "lower s = map lower_char s"

text \<open>
  Line 241, \<^verbatim>\<open>df[["Initial Unit", "Final Unit"]].drop_duplicates()\<close>: the pairs of units in
  the order of their first rows.
\<close>

fun unique_seen :: "'k list \<Rightarrow> 'k list \<Rightarrow> 'k list" where
  "unique_seen seen [] = []"
| "unique_seen seen (k # ks) =
     (if k \<in> set seen then unique_seen seen ks else k # unique_seen (k # seen) ks)"

definition unique_uom_combos :: "'a priced_item_scheme list \<Rightarrow> (string \<times> string) list" where
  "unique_uom_combos df = unique_seen [] (map (\<lambda>row. (Initial_Unit row, Final_Unit row)) df)"

text \<open>
  Lines 244-260, one pass of the loop. \<open>mask\<close> is the selection of lines 248-249 and
  257-258. Line 253 assigns a series that has the rows of the selection only, which pandas
  aligns on the index: the other rows of \<^verbatim>\<open>temp_df\<close> get a missing value. In line 260 the
  comparison of a float column with the class \<^verbatim>\<open>NameError\<close> is true in every row, so the
  right-hand side is all of \<^verbatim>\<open>temp_df\<close>; pandas aligns it with the target on the index and
  on the column label, so each selected row of \<^verbatim>\<open>df\<close> takes the value of \<^verbatim>\<open>temp_df\<close> in its
  own row. A unit that is no key of the configuration raises \<^verbatim>\<open>KeyError\<close>.
  \<open>rates\<close> is \<^verbatim>\<open>uom_config["mass_conversion_rates"]\<close>. The frame has the default index.
  Where the factor of the final unit is zero pandas stores an infinity or NaN, which the
  real numbers of the model do not have; there the model holds the quotient by zero of the
  same formula.
\<close>

definition uom_pass ::
  "(string \<rightharpoonup> real) \<Rightarrow> string \<times> string \<Rightarrow> 'a priced_item_scheme list \<Rightarrow>
     error + 'a priced_item_scheme list" where
  "uom_pass rates combo df =
     (let initial_unit = fst combo; final_unit = snd combo;
          mask = (\<lambda>row. Initial_Unit row = initial_unit \<and> Final_Unit row = final_unit)
      in case rates (lower initial_unit) of
           None \<Rightarrow> Inl (KeyError (lower initial_unit))
         | Some to_SI_unit_rate \<Rightarrow>
             let temp1 = map (\<lambda>row. if mask row then Some (Initial_Price row * to_SI_unit_rate)
                                     else None) df
             in case rates (lower final_unit) of
                  None \<Rightarrow> Inl (KeyError (lower final_unit))
                | Some to_final_unit_rate \<Rightarrow>
                    let temp2 = map (map_option (\<lambda>v. v / to_final_unit_rate)) temp1
                    in Inr (map2 (\<lambda>row t. if mask row then row\<lparr>UOM_Converted_Price := t\<rparr>
                                           else row) df temp2))"

fun uom_loop ::
  "(string \<rightharpoonup> real) \<Rightarrow> (string \<times> string) list \<Rightarrow> 'a priced_item_scheme list \<Rightarrow>
     error + 'a priced_item_scheme list" where
  "uom_loop rates [] df = Inr df"
| "uom_loop rates (combo # combos) df =
     (case uom_pass rates combo df of
        Inl e \<Rightarrow> Inl e
      | Inr df' \<Rightarrow> uom_loop rates combos df')"

definition convert_price_for_uom ::
  "(string \<rightharpoonup> real) \<Rightarrow> 'a priced_item_scheme list \<Rightarrow> error + 'a priced_item_scheme list" where
  "convert_price_for_uom rates df = uom_loop rates (unique_uom_combos df) df"

section \<open>Example data\<close>

text \<open>A row for the euro, as \<^verbatim>\<open>main\<close> builds one from a year, a month and a rate.\<close>

definition eur_row :: "int \<Rightarrow> int \<Rightarrow> real \<Rightarrow> rate_record" where
  "eur_row y m c =
     \<lparr>Currency1 = ''EUR'', Currency2 = ''USD'', Year = y, Month = m,
      to_USD = c, from_USD = inverse_rate c\<rparr>"

text \<open>The files before a first run, and files that hold a euro sheet.\<close>

definition no_files :: store where
  "no_files = \<lparr>hist = Map.empty, backups = Map.empty\<rparr>"

definition eur_files :: "frame \<Rightarrow> store" where
  "eur_files existing_df = \<lparr>hist = [''EUR'' \<mapsto> existing_df], backups = Map.empty\<rparr>"

text \<open>
  Python's \<^verbatim>\<open>float\<close> on the tokens of the examples; every other string counts as one
  that \<^verbatim>\<open>float\<close> rejects.
\<close>

definition float_table :: "string \<Rightarrow> real option" where
  "float_table = map_of [(''1.10'', 1.1), (''0'', 0), (''-2'', - 2)]"


definition long_month_net :: "nat \<Rightarrow> int \<Rightarrow> nat \<Rightarrow> string list option" where
  "long_month_net index year k = Some [''January 1.10 31'']"

definition eur_only_net :: "nat \<Rightarrow> int \<Rightarrow> nat \<Rightarrow> string list option" where
  "eur_only_net index year k = (if index = 2 then Some [''Jan 1.10 31'', ''Total''] else None)"

definition dead_net :: "nat \<Rightarrow> int \<Rightarrow> nat \<Rightarrow> string list option" where
  "dead_net index year k = None"

text \<open>An input sheet with three currencies.\<close>

definition tracked :: "input_row list" where
  "tracked =
     [\<lparr>Initial_Currency = ''GBP'', Fetched_Year = 2022\<rparr>,
      \<lparr>Initial_Currency = ''USD'', Fetched_Year = 2020\<rparr>,
      \<lparr>Initial_Currency = ''EUR'', Fetched_Year = 2023\<rparr>]"

text \<open>A unit configuration and a priced-item table of two rows.\<close>

definition mass_rates :: "string \<rightharpoonup> real" where
  "mass_rates = [''kg'' \<mapsto> 1.0, ''lb'' \<mapsto> 0.453592]"

definition items :: "priced_item list" where
  "items =
     [\<lparr>Initial_Unit = ''KG'', Final_Unit = ''lb'', Initial_Price = 10, UOM_Converted_Price = None\<rparr>,
      \<lparr>Initial_Unit = ''lb'', Final_Unit = ''kg'', Initial_Price = 5, UOM_Converted_Price = None\<rparr>]"

text \<open>A table whose first pair of units has a unit that is no key of the configuration.\<close>

definition items_unknown_unit :: "priced_item list" where
  "items_unknown_unit =
     [\<lparr>Initial_Unit = ''kg'', Final_Unit = ''stone'', Initial_Price = 3, UOM_Converted_Price = None\<rparr>,
      \<lparr>Initial_Unit = ''kg'', Final_Unit = ''lb'', Initial_Price = 10, UOM_Converted_Price = None\<rparr>]"

section \<open>Properties of the merge\<close>

text \<open>The scan and the removal of the current month's row.\<close>

lemma index_to_delete_None:
  "index_to_delete cy cm df = None \<longleftrightarrow> (\<forall>r \<in> set df. \<not> (Month r = cm \<and> Year r = cy))"
  by (induction df) auto

lemma index_to_delete_Some:
  "index_to_delete cy cm df = Some i \<Longrightarrow>
     i < length df \<and> Month (df ! i) = cm \<and> Year (df ! i) = cy \<and>
     (\<forall>r \<in> set (take i df). \<not> (Month r = cm \<and> Year r = cy))"
  by (induction df arbitrary: i) (auto split: if_splits)

lemma index_to_delete_find:
  "index_to_delete cy cm df = Some i \<Longrightarrow>
     find (\<lambda>r. period r = (cy, cm)) df = Some (df ! i)"
  by (induction df arbitrary: i) (auto split: if_splits simp: period_def)

lemma remove_current_remove1:
  "find (\<lambda>r. period r = (cy, cm)) df = Some old \<Longrightarrow> remove_current cy cm df = remove1 old df"
proof (induction df)
  case Nil then show ?case by simp
next
  case (Cons a df)
  show ?case
  proof (cases "period a = (cy, cm)")
    case True
    with Cons.prems have "a = old" by simp
    with True show ?thesis by (simp add: remove_current_def drop_row_def period_def)
  next
    case False
    with Cons.prems have f: "find (\<lambda>r. period r = (cy, cm)) df = Some old" by simp
    then have "period old = (cy, cm)" by (auto simp: find_Some_iff)
    with False have ne: "a \<noteq> old" by auto
    from Cons.IH[OF f] False ne show ?thesis
      by (auto simp: remove_current_def drop_row_def period_def split: option.splits)
  qed
qed

lemma remove_current_none:
  "find (\<lambda>r. period r = (cy, cm)) df = None \<Longrightarrow> remove_current cy cm df = df"
  by (induction df) (auto simp: remove_current_def drop_row_def period_def split: option.splits if_splits)

lemma filter_remove_current_other:
  "p \<noteq> (cy, cm) \<Longrightarrow> filter (\<lambda>r. period r = p) (remove_current cy cm df) = filter (\<lambda>r. period r = p) df"
  by (induction df) (auto simp: remove_current_def drop_row_def period_def split: option.splits if_splits)

lemma filter_remove_current_single:
  "filter (\<lambda>r. period r = (cy, cm)) df = [old] \<Longrightarrow>
     remove_current cy cm df = filter (\<lambda>r. period r \<noteq> (cy, cm)) df"
proof (induction df)
  case Nil then show ?case by simp
next
  case (Cons a df)
  show ?case
  proof (cases "period a = (cy, cm)")
    case True
    with Cons.prems have "filter (\<lambda>r. period r = (cy, cm)) df = []" by simp
    then have "filter (\<lambda>r. period r \<noteq> (cy, cm)) df = df"
      by (simp add: filter_empty_conv filter_id_conv)
    with True show ?thesis by (simp add: remove_current_def drop_row_def period_def)
  next
    case False
    with Cons.prems have "filter (\<lambda>r. period r = (cy, cm)) df = [old]" by simp
    from Cons.IH[OF this] False show ?thesis
      by (auto simp: remove_current_def drop_row_def period_def split: option.splits)
  qed
qed

text \<open>Dropping duplicates: the first row of each period stays, and only it.\<close>

lemma dds_set: "set (drop_duplicates_seen seen df) \<subseteq> set df"
  by (induction df arbitrary: seen) auto

lemma dds_not_seen: "r \<in> set (drop_duplicates_seen seen df) \<Longrightarrow> period r \<notin> set seen"
proof (induction df arbitrary: seen)
  case Nil then show ?case by simp
next
  case (Cons a df)
  show ?case
  proof (cases "period a \<in> set seen")
    case True
    with Cons.prems have "r \<in> set (drop_duplicates_seen seen df)" by simp
    then show ?thesis by (rule Cons.IH)
  next
    case False
    with Cons.prems have "r = a \<or> r \<in> set (drop_duplicates_seen (period a # seen) df)" by simp
    then show ?thesis
    proof
      assume "r = a" with False show ?thesis by simp
    next
      assume "r \<in> set (drop_duplicates_seen (period a # seen) df)"
      then have "period r \<notin> set (period a # seen)" by (rule Cons.IH)
      then show ?thesis by simp
    qed
  qed
qed

lemma dds_distinct: "distinct (map period (drop_duplicates_seen seen df))"
  by (induction df arbitrary: seen) (auto dest: dds_not_seen)

lemma dds_filter:
  "filter (\<lambda>r. period r = p) (drop_duplicates_seen seen df) =
     (if p \<in> set seen then []
      else case find (\<lambda>r. period r = p) df of None \<Rightarrow> [] | Some e \<Rightarrow> [e])"
proof (induction df arbitrary: seen)
  case Nil then show ?case by simp
next
  case (Cons a df)
  then show ?case by (auto split: option.splits)
qed

text \<open>The sort: a permutation, descending by period.\<close>

lemma mset_insert_desc: "mset (insert_desc x ys) = add_mset x (mset ys)"
  by (induction ys) auto

lemma mset_sort_values_desc: "mset (sort_values_desc df) = mset df"
  by (induction df) (auto simp: sort_values_desc_def mset_insert_desc)

lemma set_insert_desc: "set (insert_desc x ys) = insert x (set ys)"
  by (induction ys) auto

lemma sorted_insert_desc:
  "sorted_wrt period_ge ys \<Longrightarrow> sorted_wrt period_ge (insert_desc x ys)"
  by (induction ys) (auto simp: set_insert_desc period_ge_def)

lemma sorted_sort_values_desc: "sorted_wrt period_ge (sort_values_desc df)"
  by (induction df) (auto simp: sort_values_desc_def sorted_insert_desc)

lemma sorted_strict:
  "sorted_wrt period_ge xs \<Longrightarrow> distinct (map period xs) \<Longrightarrow> sorted_wrt period_gt xs"
  by (induction xs) (force simp: period_ge_def period_gt_def period_def)+

lemma distinct_sort_values_desc:
  "distinct (map period (sort_values_desc df)) = distinct (map period df)"
proof -
  have "mset (map period (sort_values_desc df)) = mset (map period df)"
    by (simp add: mset_sort_values_desc)
  then show ?thesis by (rule mset_eq_imp_distinct_iff)
qed

lemma filter_sort_values_desc_le1:
  assumes "length (filter P df) \<le> 1"
  shows "filter P (sort_values_desc df) = filter P df"
proof -
  have m: "mset (filter P (sort_values_desc df)) = mset (filter P df)"
    by (simp add: mset_sort_values_desc)
  show ?thesis
  proof (cases "filter P df")
    case Nil
    with m show ?thesis by simp
  next
    case (Cons a as)
    with assms have "as = []" by simp
    with Cons m have "mset (filter P (sort_values_desc df)) = {#a#}" by simp
    then have "filter P (sort_values_desc df) = [a]"
      by (cases "filter P (sort_values_desc df)") auto
    with Cons \<open>as = []\<close> show ?thesis by simp
  qed
qed

lemma py_max_Cons: "py_max (x # xs) = Inr (Max (set (x # xs)))"
  using Max.set_eq_fold [of x xs] by simp

lemma py_max_nonempty: "xs \<noteq> [] \<Longrightarrow> py_max xs = Inr (Max (set xs))"
  using py_max_Cons by (cases xs) auto

lemma filter_remove_current_now:
  "distinct (map period df) \<Longrightarrow> filter (\<lambda>r. period r = (cy, cm)) (remove_current cy cm df) = []"
proof (cases "find (\<lambda>r. period r = (cy, cm)) df")
  case None
  then show ?thesis by (simp add: remove_current_none find_None_iff filter_empty_conv)
next
  case (Some old)
  assume d: "distinct (map period df)"
  from Some have "period old = (cy, cm)" "old \<in> set df"
    by (auto simp: find_Some_iff)
  have "\<And>r. r \<in> set (remove1 old df) \<Longrightarrow> period r \<noteq> (cy, cm)"
  proof
    fix r assume r: "r \<in> set (remove1 old df)" and p: "period r = (cy, cm)"
    from d have dd: "distinct df" and inj: "inj_on period (set df)"
      by (simp_all add: distinct_map)
    with r have "r \<in> set df" "r \<noteq> old" by auto
    with inj \<open>old \<in> set df\<close> have "period r \<noteq> period old"
      by (auto dest: inj_onD)
    with p \<open>period old = (cy, cm)\<close> show False by simp
  qed
  with Some show ?thesis by (simp add: remove_current_remove1 filter_empty_conv)
qed

lemma hist_df_filter:
  "filter (\<lambda>r. period r = p) (hist_df cy cm existing_df df) =
     (case find (\<lambda>r. period r = p) (remove_current cy cm existing_df @ df) of
        None \<Rightarrow> [] | Some e \<Rightarrow> [e])"
proof -
  let ?d = "drop_duplicates (remove_current cy cm existing_df @ df)"
  have f: "filter (\<lambda>r. period r = p) ?d =
     (case find (\<lambda>r. period r = p) (remove_current cy cm existing_df @ df) of
        None \<Rightarrow> [] | Some e \<Rightarrow> [e])"
    by (simp add: drop_duplicates_def dds_filter)
  then have "length (filter (\<lambda>r. period r = p) ?d) \<le> 1"
    by (simp split: option.splits)
  then have "filter (\<lambda>r. period r = p) (sort_values_desc ?d) = filter (\<lambda>r. period r = p) ?d"
    by (rule filter_sort_values_desc_le1)
  with f show ?thesis by (simp add: hist_df_def)
qed

lemma hist_df_distinct: "distinct (map period (hist_df cy cm existing_df df))"
  by (simp add: hist_df_def distinct_sort_values_desc drop_duplicates_def dds_distinct)

lemma hist_df_strict: "sorted_wrt period_gt (hist_df cy cm existing_df df)"
  using sorted_sort_values_desc hist_df_distinct
  unfolding hist_df_def by (rule sorted_strict)

lemma writing_all_file_loaded:
  assumes "hist st product = Some existing_df" and "df \<noteq> []"
  shows "writing_all_file now df product st =
     Inr (st\<lparr>hist := (hist st)(product \<mapsto> hist_df (fst now) (snd now) existing_df df),
             backups := (backups st)(((Max (set (map Month df)), Max (set (map Year df))), product) \<mapsto>
                               remove_current (fst now) (snd now) existing_df)\<rparr>)"
  using assms by (simp add: writing_all_file_def py_max_nonempty)

lemma writing_all_file_fallback:
  assumes "hist st product = None" and "df \<noteq> []"
  shows "writing_all_file now df product st =
     Inr (st\<lparr>hist := (hist st)(product \<mapsto> sort_values_desc df),
             backups := (backups st)(((Max (set (map Month df)), Max (set (map Year df))), product) \<mapsto>
                               sort_values_desc df)\<rparr>)"
  using assms by (simp add: writing_all_file_def py_max_nonempty)

lemma find_append:
  "find P (xs @ ys) = (case find P xs of None \<Rightarrow> find P ys | Some x \<Rightarrow> Some x)"
  by (induction xs) auto

lemma eur_row_simps:
  "Year (eur_row y m c) = y" "Month (eur_row y m c) = m" "period (eur_row y m c) = (y, m)"
  "to_USD (eur_row y m c) = c"
  by (simp_all add: eur_row_def period_def)

lemma eur_row_eq: "eur_row y m c = eur_row y' m' c' \<longleftrightarrow> y = y' \<and> m = m' \<and> c = c'"
  by (auto simp: eur_row_def)

text \<open>
  When the sheet loads, the frame written has one row for each (Year, Month) and is
  strictly descending; on a first run it has what the new records have.
\<close>

lemma merge_loaded_no_duplicates:
  assumes "hist st product = Some existing_df" and "df \<noteq> []"
  shows "\<exists>t. persisted (writing_all_file now df product st) product = Some t
           \<and> distinct (map period t)"
  using assms by (simp add: persisted_def writing_all_file_loaded hist_df_distinct)

lemma merge_loaded_strictly_descending:
  assumes "hist st product = Some existing_df" and "df \<noteq> []"
  shows "\<exists>t. persisted (writing_all_file now df product st) product = Some t
           \<and> sorted_wrt period_gt t"
  using assms by (simp add: persisted_def writing_all_file_loaded hist_df_strict)

lemma first_run_no_duplicates_if_new_distinct:
  assumes "hist st product = None" and "df \<noteq> []"
  shows "\<exists>t. persisted (writing_all_file now df product st) product = Some t
           \<and> distinct (map period t) = distinct (map period df)"
  using assms by (simp add: persisted_def writing_all_file_fallback distinct_sort_values_desc)

text \<open>
  Two merges in a row into a loaded sheet, under one clock: the table written by the
  second holds, for the current month, the record the second fetch brought.
\<close>

lemma merge_twice_replaces_current_month:
  assumes loaded: "hist st product = Some existing_df"
    and ne: "df1 \<noteq> []"
    and first: "writing_all_file now df1 product st = Inr st1"
    and fetched: "find (\<lambda>r. period r = now) df2 = Some new"
  shows "\<exists>t. persisted (writing_all_file now df2 product st1) product = Some t
           \<and> filter (\<lambda>r. period r = now) t = [new]"
proof -
  let ?t1 = "hist_df (fst now) (snd now) existing_df df1"
  from loaded ne first have h1: "hist st1 product = Some ?t1"
    by (auto simp: writing_all_file_loaded)
  from fetched have ne2: "df2 \<noteq> []" by auto
  have "filter (\<lambda>r. period r = (fst now, snd now)) (remove_current (fst now) (snd now) ?t1) = []"
    by (rule filter_remove_current_now) (rule hist_df_distinct)
  then have "find (\<lambda>r. period r = now) (remove_current (fst now) (snd now) ?t1) = None"
    by (simp add: find_None_iff filter_empty_conv)
  with fetched have "filter (\<lambda>r. period r = now) (hist_df (fst now) (snd now) ?t1 df2) = [new]"
    by (simp add: hist_df_filter find_append)
  with h1 ne2 show ?thesis
    by (simp add: persisted_def writing_all_file_loaded)
qed

text \<open>
  Claim C1: after every merge the persisted table has no two records with the same
  (year, month). The \<^verbatim>\<open>try\<close> branch drops duplicates (lemma \<open>merge_loaded_no_duplicates\<close>);
  the \<^verbatim>\<open>except\<close> branch, which every first run of a currency takes, only sorts. On a first
  run with two new rows for January 2023 both rows are written.
\<close>

theorem first_run_keeps_duplicate_periods:
  "persisted (writing_all_file (2023, 3) [eur_row 2023 1 1.1, eur_row 2023 1 1.2] ''EUR'' no_files)
       ''EUR'' = Some [eur_row 2023 1 1.1, eur_row 2023 1 1.2]
   \<and> \<not> distinct (map period [eur_row 2023 1 1.1, eur_row 2023 1 1.2])"
  by (simp add: persisted_def writing_all_file_def no_files_def sort_values_desc_def
        period_ge_def period_def eur_row_def)

text \<open>
  Claim C2, as stated: for every existing table that holds a record of the current month and
  year the merge removes it before the new records are appended, so that merging twice in
  one month replaces that month's record. A first run whose page names March 2023 twice
  writes both rows. In the next merge of that month only the first of them is removed (the
  scan breaks at the first hit), the other one is kept and the freshly fetched record of
  March is dropped as its duplicate. And when the new records hold no record of the current
  month, the old one is removed and nothing takes its place.
\<close>

theorem stale_current_month_row_survives:
  "persisted (writing_all_file (2023, 3) [eur_row 2023 3 1.05, eur_row 2023 3 1.06] ''EUR'' no_files)
       ''EUR'' = Some [eur_row 2023 3 1.05, eur_row 2023 3 1.06]
   \<and> persisted (writing_all_file (2023, 3) [eur_row 2023 3 1.09] ''EUR''
         (eur_files [eur_row 2023 3 1.05, eur_row 2023 3 1.06])) ''EUR'' = Some [eur_row 2023 3 1.06]
   \<and> persisted (writing_all_file (2023, 3) [eur_row 2023 2 1.0701] ''EUR''
         (eur_files [eur_row 2023 3 1.05, eur_row 2023 2 1.07])) ''EUR'' = Some [eur_row 2023 2 1.07]"
  by (simp add: persisted_def writing_all_file_def no_files_def eur_files_def hist_df_def
        remove_current_def drop_row_def drop_duplicates_def sort_values_desc_def
        period_ge_def eur_row_simps)

text \<open>
  Claim C2, amended: for every existing table that holds a record of the current month and
  year, the merge removes the first such record before the new records are appended. The
  table written then holds at most one record of the current month: a further old record
  of that month when the table had one, otherwise the first newly fetched record of that
  month, and none when none was fetched. So when the table held a single record of the
  current month, the rows kept are exactly those of the other months, and the record of
  the current month is the fetched one.
\<close>

theorem merge_replaces_current_month:
  assumes loaded: "hist st product = Some existing_df"
    and old: "find (\<lambda>r. period r = now) existing_df = Some old"
    and ne: "df \<noteq> []"
  shows "remove_current (fst now) (snd now) existing_df = remove1 old existing_df
       \<and> (\<exists>t. persisted (writing_all_file now df product st) product = Some t
            \<and> filter (\<lambda>r. period r = now) t =
                (case find (\<lambda>r. period r = now) (remove1 old existing_df) of
                   Some stale \<Rightarrow> [stale]
                 | None \<Rightarrow>
                     (case find (\<lambda>r. period r = now) df of None \<Rightarrow> [] | Some new \<Rightarrow> [new]))
            \<and> (filter (\<lambda>r. period r = now) existing_df = [old] \<longrightarrow>
                  remove1 old existing_df = filter (\<lambda>r. period r \<noteq> now) existing_df
                  \<and> filter (\<lambda>r. period r = now) t =
                      (case find (\<lambda>r. period r = now) df of None \<Rightarrow> [] | Some new \<Rightarrow> [new])))"
proof -
  obtain cy cm where now: "now = (cy, cm)" by (cases now)
  from old have rc: "remove_current cy cm existing_df = remove1 old existing_df"
    unfolding now by (rule remove_current_remove1)
  let ?t = "hist_df cy cm existing_df df"
  have f: "filter (\<lambda>r. period r = (cy, cm)) ?t =
      (case find (\<lambda>r. period r = (cy, cm)) (remove1 old existing_df) of
         Some stale \<Rightarrow> [stale]
       | None \<Rightarrow>
           (case find (\<lambda>r. period r = (cy, cm)) df of None \<Rightarrow> [] | Some new \<Rightarrow> [new]))"
    by (simp add: hist_df_filter rc find_append split: option.splits)
  have single: "remove1 old existing_df = filter (\<lambda>r. period r \<noteq> (cy, cm)) existing_df
      \<and> filter (\<lambda>r. period r = (cy, cm)) ?t =
          (case find (\<lambda>r. period r = (cy, cm)) df of None \<Rightarrow> [] | Some new \<Rightarrow> [new])"
    if one: "filter (\<lambda>r. period r = (cy, cm)) existing_df = [old]"
  proof -
    from one have r: "remove1 old existing_df = filter (\<lambda>r. period r \<noteq> (cy, cm)) existing_df"
      using filter_remove_current_single [of cy cm existing_df old] rc by simp
    then have "find (\<lambda>r. period r = (cy, cm)) (remove1 old existing_df) = None"
      by (simp add: find_None_iff)
    with f r show ?thesis by simp
  qed
  from loaded ne have p: "persisted (writing_all_file now df product st) product = Some ?t"
    by (simp add: now persisted_def writing_all_file_loaded)
  from rc p f single show ?thesis
    unfolding now by auto
qed

theorem merge_replaces_current_month_witness:
  "remove_current 2023 3 [eur_row 2023 3 1.05, eur_row 2023 2 1.07] = [eur_row 2023 2 1.07]
   \<and> (\<exists>t. persisted (writing_all_file (2023, 3) [eur_row 2023 2 1.0701, eur_row 2023 3 1.09] ''EUR''
               (eur_files [eur_row 2023 3 1.05, eur_row 2023 2 1.07])) ''EUR'' = Some t
          \<and> filter (\<lambda>r. period r = (2023, 3)) t = [eur_row 2023 3 1.09])"
proof -
  have h1: "hist (eur_files [eur_row 2023 3 1.05, eur_row 2023 2 1.07]) ''EUR''
      = Some [eur_row 2023 3 1.05, eur_row 2023 2 1.07]"
    by (simp add: eur_files_def)
  have h2: "find (\<lambda>r. period r = (2023, 3)) [eur_row 2023 3 1.05, eur_row 2023 2 1.07]
      = Some (eur_row 2023 3 1.05)"
    by (simp add: eur_row_simps)
  have h3: "[eur_row 2023 2 1.0701, eur_row 2023 3 1.09] \<noteq> []" by simp
  from merge_replaces_current_month [OF h1 h2 h3] show ?thesis
    by (simp add: eur_row_simps)
qed

text \<open>
  Claim C3: when the existing table, after the removal of the current month's row, and the
  new records both hold a record of a period \<open>p\<close>, the table written holds exactly one
  record of \<open>p\<close>, the first of the existing ones; the new record is dropped.
\<close>

theorem merge_keeps_existing_row:
  assumes loaded: "hist st product = Some existing_df"
    and kept: "find (\<lambda>r. period r = p) (remove_current (fst now) (snd now) existing_df) = Some kept"
    and new: "new \<in> set df" "period new = p"
  shows "\<exists>t. persisted (writing_all_file now df product st) product = Some t
            \<and> filter (\<lambda>r. period r = p) t = [kept]
            \<and> kept \<in> set existing_df
            \<and> (new \<in> set t \<longrightarrow> new = kept)"
proof -
  from new have ne: "df \<noteq> []" by auto
  let ?t = "hist_df (fst now) (snd now) existing_df df"
  from kept have f: "filter (\<lambda>r. period r = p) ?t = [kept]"
    by (simp add: hist_df_filter find_append)
  have "set (remove_current (fst now) (snd now) existing_df) \<subseteq> set existing_df"
    by (auto simp: remove_current_def drop_row_def split: option.splits
             dest: in_set_takeD in_set_dropD)
  with kept have k: "kept \<in> set existing_df" by (auto simp: find_Some_iff)
  have "new \<in> set ?t \<longrightarrow> new = kept"
  proof
    assume "new \<in> set ?t"
    with new have "new \<in> set (filter (\<lambda>r. period r = p) ?t)" by simp
    with f show "new = kept" by simp
  qed
  with f k loaded ne show ?thesis
    by (simp add: persisted_def writing_all_file_loaded)
qed

theorem merge_keeps_existing_row_witness:
  "find (\<lambda>r. period r = (2023, 2)) (remove_current 2023 3 [eur_row 2023 3 1.05, eur_row 2023 2 1.07])
     = Some (eur_row 2023 2 1.07)
   \<and> eur_row 2023 2 1.0701 \<in> set [eur_row 2023 2 1.0701, eur_row 2023 3 1.09]
   \<and> (\<exists>t. persisted (writing_all_file (2023, 3) [eur_row 2023 2 1.0701, eur_row 2023 3 1.09] ''EUR''
               (eur_files [eur_row 2023 3 1.05, eur_row 2023 2 1.07])) ''EUR'' = Some t
          \<and> filter (\<lambda>r. period r = (2023, 2)) t = [eur_row 2023 2 1.07]
          \<and> eur_row 2023 2 1.0701 \<notin> set t)"
proof -
  have h1: "hist (eur_files [eur_row 2023 3 1.05, eur_row 2023 2 1.07]) ''EUR''
      = Some [eur_row 2023 3 1.05, eur_row 2023 2 1.07]"
    by (simp add: eur_files_def)
  have h2: "find (\<lambda>r. period r = (2023, 2))
      (remove_current (fst (2023, 3)) (snd (2023, 3)) [eur_row 2023 3 1.05, eur_row 2023 2 1.07])
     = Some (eur_row 2023 2 1.07)"
    by (simp add: remove_current_def drop_row_def eur_row_simps)
  have h3: "eur_row 2023 2 1.0701 \<in> set [eur_row 2023 2 1.0701, eur_row 2023 3 1.09]" by simp
  have h4: "period (eur_row 2023 2 1.0701) = (2023, 2)" by (simp add: eur_row_simps)
  have ne: "eur_row 2023 2 1.0701 \<noteq> eur_row 2023 2 1.07" by (simp add: eur_row_eq)
  from merge_keeps_existing_row [OF h1 h2 h3 h4] h2 ne show ?thesis
    by auto
qed

text \<open>
  Claim C4: after every merge the persisted table is strictly descending by year and, within
  a year, by month. It is when the sheet loaded (lemma \<open>merge_loaded_strictly_descending\<close>).
  On a first run the new records are sorted and not deduplicated: two rows of one month
  stay next to each other.
\<close>

theorem first_run_order_not_strict:
  "persisted (writing_all_file (2023, 3)
       [eur_row 2023 1 1.08, eur_row 2023 2 1.07, eur_row 2023 2 1.0701] ''EUR'' no_files) ''EUR''
     = Some [eur_row 2023 2 1.07, eur_row 2023 2 1.0701, eur_row 2023 1 1.08]
   \<and> \<not> sorted_wrt period_gt [eur_row 2023 2 1.07, eur_row 2023 2 1.0701, eur_row 2023 1 1.08]"
  by (simp add: persisted_def writing_all_file_def no_files_def sort_values_desc_def
        period_ge_def period_gt_def eur_row_simps)

text \<open>
  Claim C8, as stated: the backup's name is formed from the maximum (month, year) present in
  the new records. With new records for December 2022 and January 2023 the backup is named
  for month 12 of 2023, which is no period of the new records; there is no backup named
  for January 2023, the latest period fetched.
\<close>

theorem backup_name_is_no_fetched_period:
  "backed_up (writing_all_file (2023, 1) [eur_row 2022 12 1.06, eur_row 2023 1 1.08] ''EUR''
       (eur_files [eur_row 2022 11 1.02])) ((12, 2023), ''EUR'') = Some [eur_row 2022 11 1.02]
   \<and> backed_up (writing_all_file (2023, 1) [eur_row 2022 12 1.06, eur_row 2023 1 1.08] ''EUR''
       (eur_files [eur_row 2022 11 1.02])) ((1, 2023), ''EUR'') = None
   \<and> (2023, 12) \<notin> set (map period [eur_row 2022 12 1.06, eur_row 2023 1 1.08])"
  by (simp add: backed_up_def writing_all_file_def eur_files_def remove_current_def eur_row_simps)

text \<open>
  Claim C8, amended: when the sheet loads and there are new records, the backup holds the
  existing table after the removal of the current month's row and before the new records
  are appended; its name is formed from the largest \<^verbatim>\<open>Month\<close> and the largest \<^verbatim>\<open>Year\<close> of
  the new records, each taken over its own column. No other backup sheet changes.
\<close>

theorem backup_snapshot_of_merge:
  assumes loaded: "hist st product = Some existing_df"
    and ne: "df \<noteq> []"
  shows "backed_up (writing_all_file now df product st)
             ((Max (set (map Month df)), Max (set (map Year df))), product)
           = Some (remove_current (fst now) (snd now) existing_df)
       \<and> (\<forall>k. k \<noteq> ((Max (set (map Month df)), Max (set (map Year df))), product)
                 \<longrightarrow> backed_up (writing_all_file now df product st) k = backups st k)"
  using assms by (simp add: backed_up_def writing_all_file_loaded)

theorem backup_snapshot_of_merge_witness:
  "backed_up (writing_all_file (2023, 3) [eur_row 2023 2 1.0701, eur_row 2023 3 1.09] ''EUR''
       (eur_files [eur_row 2023 3 1.05, eur_row 2023 2 1.07])) ((3, 2023), ''EUR'')
     = Some [eur_row 2023 2 1.07]
   \<and> backed_up (writing_all_file (2023, 3) [eur_row 2023 2 1.0701, eur_row 2023 3 1.09] ''EUR''
       (eur_files [eur_row 2023 3 1.05, eur_row 2023 2 1.07])) ((2, 2023), ''EUR'') = None"
proof -
  have h1: "hist (eur_files [eur_row 2023 3 1.05, eur_row 2023 2 1.07]) ''EUR''
      = Some [eur_row 2023 3 1.05, eur_row 2023 2 1.07]"
    by (simp add: eur_files_def)
  have h2: "[eur_row 2023 2 1.0701, eur_row 2023 3 1.09] \<noteq> []" by simp
  have b: "backups (eur_files [eur_row 2023 3 1.05, eur_row 2023 2 1.07]) ((2, 2023), ''EUR'') = None"
    by (simp add: eur_files_def)
  from backup_snapshot_of_merge [OF h1 h2, of "(2023, 3)"] b show ?thesis
    by (simp add: eur_row_simps remove_current_def drop_row_def)
qed

section \<open>Properties of fetching and parsing\<close>

declare year_loop.simps [simp del]






lemma parse_line_tokens:
  "split_space lis = month # crate # extra \<Longrightarrow>
     parse_line float_of currency year lis =
       (case float_of crate of
          None \<Rightarrow> Inl (ValueError crate)
        | Some c \<Rightarrow>
            (case extract_date month year of
               Inl e \<Rightarrow> Inl e
             | Inr d \<Rightarrow>
                 Inr (Some \<lparr>Currency1 = currency, Currency2 = ''USD'', Year = year,
                            Month = fst (snd d), to_USD = c, from_USD = inverse_rate c\<rparr>)))"
  by (simp add: parse_line_def split: option.splits sum.splits prod.splits)

text \<open>
  Claim C5, as stated: the inverse is 0 for every rate \<open>r \<le> 0\<close>. The line \<^verbatim>\<open>"Jan -2"\<close> gives a
  record with the rate \<open>- 2\<close> and the inverse \<open>- 1 / 2\<close>: the division raises for zero only.
\<close>

theorem negative_rate_has_negative_inverse:
  "parse_line float_table ''EUR'' 2023 ''Jan -2'' = Inr (Some (eur_row 2023 1 (- 2)))
   \<and> to_USD (eur_row 2023 1 (- 2)) \<le> 0
   \<and> from_USD (eur_row 2023 1 (- 2)) = - 1 / 2
   \<and> from_USD (eur_row 2023 1 (- 2)) \<noteq> 0"
  by (simp add: parse_line_def float_table_def extract_date_def month_mapping_def eur_row_def
        inverse_rate_def)

text \<open>
  Claim C5, amended: for every parsed rate \<open>r\<close> the record holds \<open>r\<close> and, as the rate from
  the base, \<open>1 / r\<close> when \<open>r\<close> is not zero (so for a negative rate too) and 0 when \<open>r\<close> is
  zero.
\<close>

theorem record_inverse_rate:
  assumes "split_space lis = month # crate # extra"
    and "float_of crate = Some r"
    and "parse_line float_of currency year lis = Inr (Some row)"
  shows "to_USD row = r \<and> from_USD row = (if r = 0 then 0 else 1 / r)"
  using assms by (auto simp: parse_line_tokens inverse_rate_def split: sum.splits)

theorem record_inverse_rate_witness:
  "parse_line float_table ''EUR'' 2023 ''Jan 1.10'' = Inr (Some (eur_row 2023 1 1.1))
   \<and> to_USD (eur_row 2023 1 1.1) = 1.1 \<and> from_USD (eur_row 2023 1 1.1) = 10 / 11"
proof -
  have h1: "split_space ''Jan 1.10'' = ''Jan'' # ''1.10'' # []" by simp
  have h2: "float_table ''1.10'' = Some 1.1" by (simp add: float_table_def)
  have h3: "parse_line float_table ''EUR'' 2023 ''Jan 1.10'' = Inr (Some (eur_row 2023 1 1.1))"
    by (simp add: parse_line_def float_table_def extract_date_def month_mapping_def eur_row_def)
  from record_inverse_rate [OF h1 h2 h3] h3 show ?thesis by simp
qed

lemma parse_lists_error:
  "lis \<in> set ls \<Longrightarrow> parse_line float_of currency year lis = Inl e \<Longrightarrow>
     \<exists>e'. parse_lists float_of currency year ls data = Inl e'"
proof (induction ls arbitrary: data)
  case Nil
  then show ?case by simp
next
  case (Cons a ls)
  show ?case
  proof (cases "parse_line float_of currency year a")
    case (Inl e0)
    then show ?thesis by simp
  next
    case (Inr r)
    with Cons.prems have "lis \<in> set ls" by auto
    from Cons.IH [OF this Cons.prems(2)] Inr show ?thesis
      by (cases r) simp_all
  qed
qed

lemma year_loop_error:
  assumes f: "lists (fetch (net year)) = Some ls"
    and p: "\<And>data. \<exists>e. parse_lists float_of currency year ls data = Inl e"
    and hi: "year \<le> current_year"
  shows "y0 \<le> year \<Longrightarrow> \<exists>e. year_loop net float_of currency current_year y0 data = Inl e"
proof (induction "nat (year - y0)" arbitrary: y0 data)
  case 0
  then have "y0 = year" by simp
  from p obtain e where "parse_lists float_of currency year ls data = Inl e" by blast
  with f hi \<open>y0 = year\<close> show ?case
    by (subst year_loop.simps) simp
next
  case (Suc n)
  then have lt: "y0 < year" and n: "n = nat (year - (y0 + 1))" and le: "y0 + 1 \<le> year"
    by simp_all
  from lt hi have y0: "y0 \<le> current_year" by simp
  have next_year: "\<exists>e. year_loop net float_of currency current_year (y0 + 1) d = Inl e" for d
    using Suc.hyps(1) [OF n le] .
  show ?case
  proof (cases "lists (fetch (net y0))")
    case None
    with y0 next_year [of data] show ?thesis
      by (subst year_loop.simps) simp
  next
    case (Some ls')
    show ?thesis
    proof (cases "parse_lists float_of currency y0 ls' data")
      case (Inl e)
      with y0 Some show ?thesis by (subst year_loop.simps) simp
    next
      case (Inr data')
      with y0 Some next_year [of data'] show ?thesis
        by (subst year_loop.simps) simp
    qed
  qed
qed

lemma currency_loop_step:
  "(\<exists>e. currency_loop net float_of now ((i, row) # rows) rs = Inl e) \<or>
   (\<exists>rs'. currency_loop net float_of now ((i, row) # rows) rs
            = currency_loop net float_of now rows rs')"
  by (auto split: sum.splits)

lemma currency_loop_error:
  "(i, row) \<in> set rows \<Longrightarrow> Initial_Currency row \<noteq> ''USD'' \<Longrightarrow>
     fetch_currency net float_of now i row = Inl e \<Longrightarrow>
     \<exists>e'. currency_loop net float_of now rows rs = Inl e'"
proof (induction rows arbitrary: rs)
  case Nil
  then show ?case by simp
next
  case (Cons a rows)
  obtain j r where a: "a = (j, r)" by (cases a)
  show ?case
  proof (cases "a = (i, row)")
    case True
    with Cons.prems show ?thesis by simp
  next
    case False
    with Cons.prems have "(i, row) \<in> set rows" by simp
    from Cons.IH [OF this Cons.prems(2,3)]
    have ih: "\<exists>e'. currency_loop net float_of now rows rs' = Inl e'" for rs' .
    from currency_loop_step [of net float_of now j r rows rs] ih show ?thesis
      unfolding a by metis
  qed
qed

lemma main_error:
  assumes "i < length input_df" "Initial_Currency (input_df ! i) \<noteq> ''USD''"
    and "fetch_currency net float_of now i (input_df ! i) = Inl e"
  shows "\<exists>e'. main net float_of now input_df st = Inl e'"
proof -
  from assms(1) have "(i, input_df ! i) \<in> set (enumerate 0 input_df)"
    by (simp add: in_set_enumerate_eq)
  from currency_loop_error [OF this assms(2,3)]
  obtain e' where "currency_loop net float_of now (enumerate 0 input_df)
             \<lparr>files = st, max_years = [], max_month = []\<rparr> = Inl e'" by blast
  then show ?thesis by (simp add: main_def)
qed

lemmas run_eval =
  main_def fetch_currency_def year_loop.simps fetch_def parse_line_def float_table_def
  extract_date_def month_mapping_def eval_nat_numeral enumerate_eq_zip

text \<open>
  Claim C10: of a line with two or more tokens only the first two are used: the line gives
  what the line of its first two tokens gives, and a record when these are a month
  abbreviation and a number (the year being one a date can have). When the first token is
  no month abbreviation or the second is no number, the line raises; so does the loop over
  any lines that hold it, and so does the run, whenever the page fetched for a tracked
  currency other than USD and a year from its fetched year to the current one holds the line.
\<close>

theorem malformed_line_aborts_run:
  assumes toks: "split_space lis = month # crate # extra"
  shows "(\<forall>lis'. split_space lis' = [month, crate] \<longrightarrow>
            parse_line float_of currency year lis = parse_line float_of currency year lis')
    \<and> (\<forall>c m. float_of crate = Some c \<and> month_mapping month = Some m \<and> 1 \<le> year \<and> year \<le> 9999 \<longrightarrow>
          parse_line float_of currency year lis =
            Inr (Some \<lparr>Currency1 = currency, Currency2 = ''USD'', Year = year, Month = m,
                       to_USD = c, from_USD = inverse_rate c\<rparr>))
    \<and> (month_mapping month = None \<or> float_of crate = None \<longrightarrow>
          (\<exists>e. parse_line float_of currency year lis = Inl e)
        \<and> (\<forall>ls data. lis \<in> set ls \<longrightarrow>
              (\<exists>e. parse_lists float_of currency year ls data = Inl e))
        \<and> (\<forall>net now input_df st i ls.
              i < length input_df \<and> Initial_Currency (input_df ! i) = currency
              \<and> currency \<noteq> ''USD'' \<and> Fetched_Year (input_df ! i) \<le> year \<and> year \<le> fst now
              \<and> lists (fetch (net i year)) = Some ls \<and> lis \<in> set ls \<longrightarrow>
              (\<exists>e. main net float_of now input_df st = Inl e)))"
proof (intro conjI allI impI)
  fix lis'
  assume "split_space lis' = [month, crate]"
  with toks show "parse_line float_of currency year lis = parse_line float_of currency year lis'"
    by (simp add: parse_line_tokens)
next
  fix c m
  assume "float_of crate = Some c \<and> month_mapping month = Some m \<and> 1 \<le> year \<and> year \<le> 9999"
  with toks show "parse_line float_of currency year lis =
            Inr (Some \<lparr>Currency1 = currency, Currency2 = ''USD'', Year = year, Month = m,
                       to_USD = c, from_USD = inverse_rate c\<rparr>)"
    by (simp add: parse_line_tokens extract_date_def)
next
  assume bad: "month_mapping month = None \<or> float_of crate = None"
  with toks show raised: "\<exists>e. parse_line float_of currency year lis = Inl e"
    by (auto simp: parse_line_tokens extract_date_def split: option.splits)
  {
    fix ls data
    assume "lis \<in> set ls"
    with raised show "\<exists>e. parse_lists float_of currency year ls data = Inl e"
      by (auto dest: parse_lists_error)
  next
    fix net :: "nat \<Rightarrow> int \<Rightarrow> nat \<Rightarrow> string list option"
    fix now :: "int \<times> int" and input_df :: "'a input_row_scheme list" and st i ls
    assume a: "i < length input_df \<and> Initial_Currency (input_df ! i) = currency
              \<and> currency \<noteq> ''USD'' \<and> Fetched_Year (input_df ! i) \<le> year \<and> year \<le> fst now
              \<and> lists (fetch (net i year)) = Some ls \<and> lis \<in> set ls"
    from a raised have p: "\<exists>e. parse_lists float_of currency year ls data = Inl e" for data
      by (auto dest: parse_lists_error)
    from a have "\<exists>e. year_loop (net i) float_of currency (fst now) (Fetched_Year (input_df ! i)) [] = Inl e"
      by (intro year_loop_error [where year = year and ls = ls] p) simp_all
    with a have "\<exists>e. fetch_currency net float_of now i (input_df ! i) = Inl e"
      by (simp add: fetch_currency_def)
    with a show "\<exists>e. main net float_of now input_df st = Inl e"
      by (auto intro: main_error)
  }
qed

theorem malformed_line_aborts_run_witness:
  "parse_line float_table ''EUR'' 2023 ''Jan 1.10 31'' = parse_line float_table ''EUR'' 2023 ''Jan 1.10''
   \<and> parse_line float_table ''EUR'' 2023 ''Jan 1.10 31'' = Inr (Some (eur_row 2023 1 1.1))
   \<and> parse_line float_table ''EUR'' 2023 ''January 1.10 31'' = Inl (KeyError ''January'')
   \<and> main long_month_net float_table (2023, 3) tracked no_files = Inl (KeyError ''January'')"
proof -
  have t1: "split_space ''Jan 1.10 31'' = ''Jan'' # ''1.10'' # [''31'']" by simp
  have t2: "split_space ''January 1.10 31'' = ''January'' # ''1.10'' # [''31'']" by simp
  have s: "split_space ''Jan 1.10'' = [''Jan'', ''1.10'']" by simp
  have ok: "float_table ''1.10'' = Some 1.1 \<and> month_mapping ''Jan'' = Some 1
      \<and> (1::int) \<le> 2023 \<and> (2023::int) \<le> 9999"
    by (simp add: float_table_def month_mapping_def)
  have bad: "month_mapping ''January'' = None \<or> float_table ''1.10'' = None"
    by (simp add: month_mapping_def)
  have e: "parse_line float_table ''EUR'' 2023 ''January 1.10 31'' = Inl (KeyError ''January'')"
    by (simp add: parse_line_def float_table_def extract_date_def month_mapping_def)
  have m: "main long_month_net float_table (2023, 3) tracked no_files = Inl (KeyError ''January'')"
    by (simp add: run_eval tracked_def long_month_net_def)
  from malformed_line_aborts_run [OF t1, of float_table "''EUR''" 2023] s ok
    malformed_line_aborts_run [OF t2, of float_table "''EUR''" 2023] bad e m
  show ?thesis by (simp add: eur_row_def)
qed

section \<open>Properties of the progress update\<close>

lemma map_of_filter_other:
  "c \<noteq> k \<Longrightarrow> map_of (filter (\<lambda>kv. fst kv \<noteq> k) d) c = map_of d c"
  by (induction d) auto

lemma map_of_dict_set:
  "map_of (dict_set k v d) c = (if c = k then Some v else map_of d c)"
  by (simp add: dict_set_def map_of_filter_other)

lemma currency_loop_untouched:
  "currency_loop net float_of now rows rs = Inr rs' \<Longrightarrow>
   (\<forall>(i, row) \<in> set rows. Initial_Currency row = c \<longrightarrow>
        c = ''USD'' \<or> fetch_currency net float_of now i row = Inr []) \<Longrightarrow>
   map_of (max_years rs') c = map_of (max_years rs) c"
proof (induction rows arbitrary: rs)
  case Nil
  then show ?case by simp
next
  case (Cons a rows)
  obtain i row where a: "a = (i, row)" by (cases a)
  from Cons.prems(2) have rest: "\<forall>(i, row) \<in> set rows. Initial_Currency row = c \<longrightarrow>
        c = ''USD'' \<or> fetch_currency net float_of now i row = Inr []" by simp
  from Cons.prems(2) a have here: "Initial_Currency row = c \<Longrightarrow>
        c = ''USD'' \<or> fetch_currency net float_of now i row = Inr []" by simp
  show ?case
  proof (cases "Initial_Currency row = ''USD''")
    case True
    with Cons.prems(1) a have "currency_loop net float_of now rows rs = Inr rs'" by simp
    from Cons.IH [OF this rest] show ?thesis .
  next
    case notusd: False
    show ?thesis
    proof (cases "fetch_currency net float_of now i row")
      case (Inl e)
      with Cons.prems(1) a notusd show ?thesis by simp
    next
      case (Inr df)
      show ?thesis
      proof (cases "df = []")
        case True
        with Cons.prems(1) a notusd Inr
        have "currency_loop net float_of now rows rs = Inr rs'" by simp
        from Cons.IH [OF this rest] show ?thesis .
      next
        case False
        with here Inr notusd have other: "c \<noteq> Initial_Currency row" by auto
        from False obtain m y st' where
          "py_max (map Month df) = Inr m" "py_max (map Year df) = Inr y"
          "writing_all_file now df (Initial_Currency row) (files rs) = Inr st'"
          using Cons.prems(1) a notusd Inr
          by (auto split: sum.splits)
        with Cons.prems(1) a notusd Inr False
        have "currency_loop net float_of now rows
                (rs\<lparr>files := st',
                    max_years := dict_set (Initial_Currency row) y (max_years rs),
                    max_month := dict_set (Initial_Currency row) m (max_month rs)\<rparr>) = Inr rs'"
          by simp
        from Cons.IH [OF this rest] other show ?thesis
          by (simp add: map_of_dict_set)
      qed
    qed
  qed
qed

lemma currency_loop_nothing:
  "(\<forall>(i, row) \<in> set rows. Initial_Currency row = ''USD''
        \<or> fetch_currency net float_of now i row = Inr []) \<Longrightarrow>
   currency_loop net float_of now rows rs = Inr rs"
  by (induction rows arbitrary: rs) auto

lemma update_input_file_nth:
  "i < length input_df \<Longrightarrow>
     update_input_file input_df months years ! i =
       (case map_of years (Initial_Currency (input_df ! i)) of
          Some fetch_date \<Rightarrow> (input_df ! i)\<lparr>Fetched_Year := fetch_date\<rparr>
        | None \<Rightarrow> input_df ! i)"
  by (simp add: update_input_file_def)

lemma enumerate_rows:
  "(\<forall>(i, row) \<in> set (enumerate 0 xs). P i row) \<longleftrightarrow> (\<forall>i<length xs. P i (xs ! i))"
  by (auto simp: in_set_enumerate_eq)

text \<open>
  Claim C9: in a run that returns, a currency none of whose rows produced a record (its rows
  are skipped as USD or fetch nothing) keeps its rows of the input sheet as they were, when
  the sheet is rewritten at all; and when no row produced a record the sheet is not
  rewritten and no file changes.
\<close>

theorem progress_left_unchanged:
  assumes run: "main net float_of now input_df st = Inr (st', written)"
  shows "((\<forall>i<length input_df. Initial_Currency (input_df ! i) = c \<longrightarrow>
              c = ''USD'' \<or> fetch_currency net float_of now i (input_df ! i) = Inr [])
          \<longrightarrow> (\<forall>out. written = Some out \<longrightarrow>
                 length out = length input_df
                 \<and> (\<forall>i<length input_df. Initial_Currency (input_df ! i) = c \<longrightarrow>
                       out ! i = input_df ! i)))
       \<and> ((\<forall>i<length input_df. Initial_Currency (input_df ! i) = ''USD''
              \<or> fetch_currency net float_of now i (input_df ! i) = Inr [])
          \<longrightarrow> written = None \<and> st' = st)"
proof (intro conjI impI allI)
  fix out
  assume quiet: "\<forall>i<length input_df. Initial_Currency (input_df ! i) = c \<longrightarrow>
              c = ''USD'' \<or> fetch_currency net float_of now i (input_df ! i) = Inr []"
    and w: "written = Some out"
  let ?rs0 = "\<lparr>files = st, max_years = [], max_month = []\<rparr>"
  from run w obtain rs where
    loop: "currency_loop net float_of now (enumerate 0 input_df) ?rs0 = Inr rs"
    and out: "out = update_input_file input_df (max_month rs) (max_years rs)"
    by (auto simp: main_def split: sum.splits if_splits)
  from quiet have "\<forall>(i, row) \<in> set (enumerate 0 input_df). Initial_Currency row = c \<longrightarrow>
        c = ''USD'' \<or> fetch_currency net float_of now i row = Inr []"
    by (simp add: enumerate_rows)
  from currency_loop_untouched [OF loop this] have none: "map_of (max_years rs) c = None"
    by simp
  show "length out = length input_df" by (simp add: out update_input_file_def)
  fix i assume "i < length input_df" "Initial_Currency (input_df ! i) = c"
  with none show "out ! i = input_df ! i"
    by (simp add: out update_input_file_nth)
next
  assume "\<forall>i<length input_df. Initial_Currency (input_df ! i) = ''USD''
              \<or> fetch_currency net float_of now i (input_df ! i) = Inr []"
  then have "\<forall>(i, row) \<in> set (enumerate 0 input_df). Initial_Currency row = ''USD''
        \<or> fetch_currency net float_of now i row = Inr []"
    by (simp add: enumerate_rows)
  from currency_loop_nothing [OF this] run
  have "Inr (st, None) = Inr (st', written)" by (simp add: main_def)
  then show "written = None" and "st' = st" by simp_all
qed

theorem progress_left_unchanged_witness:
  "main eur_only_net float_table (2023, 3) tracked no_files =
       Inr (\<lparr>hist = [''EUR'' \<mapsto> [eur_row 2023 1 1.1]],
             backups = [((1, 2023), ''EUR'') \<mapsto> [eur_row 2023 1 1.1]]\<rparr>,
            Some [\<lparr>Initial_Currency = ''GBP'', Fetched_Year = 2022\<rparr>,
                  \<lparr>Initial_Currency = ''USD'', Fetched_Year = 2020\<rparr>,
                  \<lparr>Initial_Currency = ''EUR'', Fetched_Year = 2023\<rparr>])
   \<and> fetch_currency eur_only_net float_table (2023, 3) 0 (tracked ! 0) = Inr []
   \<and> main dead_net float_table (2023, 3) tracked no_files = Inr (no_files, None)"
proof -
  have g: "fetch_currency eur_only_net float_table (2023, 3) 0 (tracked ! 0) = Inr []"
    by (simp add: run_eval tracked_def eur_only_net_def)
  have d: "main dead_net float_table (2023, 3) tracked no_files = Inr (no_files, None)"
    by (simp add: run_eval tracked_def dead_net_def)
  have m: "main eur_only_net float_table (2023, 3) tracked no_files =
       Inr (\<lparr>hist = [''EUR'' \<mapsto> [eur_row 2023 1 1.1]],
             backups = [((1, 2023), ''EUR'') \<mapsto> [eur_row 2023 1 1.1]]\<rparr>,
            Some [\<lparr>Initial_Currency = ''GBP'', Fetched_Year = 2022\<rparr>,
                  \<lparr>Initial_Currency = ''USD'', Fetched_Year = 2020\<rparr>,
                  \<lparr>Initial_Currency = ''EUR'', Fetched_Year = 2023\<rparr>])"
    by (simp add: run_eval tracked_def eur_only_net_def writing_all_file_def no_files_def
          dict_set_def update_input_file_def sort_values_desc_def eur_row_def)
  have q: "\<forall>i<length tracked. Initial_Currency (tracked ! i) = ''GBP'' \<longrightarrow>
      ''GBP'' = ''USD'' \<or> fetch_currency eur_only_net float_table (2023, 3) i (tracked ! i) = Inr []"
  proof (intro allI impI)
    fix i assume "i < length tracked" and c: "Initial_Currency (tracked ! i) = ''GBP''"
    then have "i = 0 \<or> i = 1 \<or> i = 2" by (auto simp: tracked_def)
    with c have "i = 0" by (auto simp: tracked_def)
    with g show "''GBP'' = ''USD''
      \<or> fetch_currency eur_only_net float_table (2023, 3) i (tracked ! i) = Inr []" by simp
  qed
  have d0: "fetch_currency dead_net float_table (2023, 3) 0 (tracked ! 0) = Inr []"
    by (simp add: run_eval tracked_def dead_net_def)
  have d2: "fetch_currency dead_net float_table (2023, 3) 2 (tracked ! 2) = Inr []"
    by (simp add: run_eval tracked_def dead_net_def)
  have q': "\<forall>i<length tracked. Initial_Currency (tracked ! i) = ''USD''
      \<or> fetch_currency dead_net float_table (2023, 3) i (tracked ! i) = Inr []"
  proof (intro allI impI)
    fix i assume "i < length tracked"
    then have "i = 0 \<or> i = 1 \<or> i = 2" by (auto simp: tracked_def)
    with d0 d2 show "Initial_Currency (tracked ! i) = ''USD''
      \<or> fetch_currency dead_net float_table (2023, 3) i (tracked ! i) = Inr []"
      by (auto simp: tracked_def)
  qed
  from progress_left_unchanged [OF m, of "''GBP''"] q progress_left_unchanged [OF d] q' g d m
  show ?thesis by blast
qed

section \<open>Properties of the unit conversion\<close>

lemma map2_map_same: "map2 f xs (map g xs) = map (\<lambda>x. f x (g x)) xs"
  by (induction xs) auto

lemma uom_pass_rows:
  assumes "rates (lower initial_unit) = Some to_SI" "rates (lower final_unit) = Some to_final"
  shows "uom_pass rates (initial_unit, final_unit) df =
     Inr (map (\<lambda>row. if Initial_Unit row = initial_unit \<and> Final_Unit row = final_unit
                      then row\<lparr>UOM_Converted_Price := Some (Initial_Price row * (to_SI / to_final))\<rparr>
                      else row) df)"
  using assms by (simp add: uom_pass_def Let_def map2_map_same cong: if_cong)

text \<open>
  The whole loop: when the units of every row are keys of the table, every row gets the
  price converted between its own units.
\<close>

lemma set_unique_seen: "set (unique_seen seen ks) = set ks - set seen"
  by (induction ks arbitrary: seen) auto

lemma set_unique_uom_combos:
  "set (unique_uom_combos df) = (\<lambda>row. (Initial_Unit row, Final_Unit row)) ` set df"
  by (simp add: unique_uom_combos_def set_unique_seen)

lemma uom_loop_rows:
  assumes "\<forall>c \<in> set cs. lower (fst c) \<in> dom rates \<and> lower (snd c) \<in> dom rates"
  shows "uom_loop rates cs df =
     Inr (map (\<lambda>row. if (Initial_Unit row, Final_Unit row) \<in> set cs
                      then row\<lparr>UOM_Converted_Price :=
                                 Some (Initial_Price row *
                                   (the (rates (lower (Initial_Unit row))) /
                                    the (rates (lower (Final_Unit row)))))\<rparr>
                      else row) df)"
  using assms
proof (induction cs arbitrary: df)
  case Nil
  then show ?case by simp
next
  case (Cons c cs)
  obtain iu fu where c: "c = (iu, fu)" by (cases c)
  from Cons.prems c obtain a b where ab: "rates (lower iu) = Some a" "rates (lower fu) = Some b"
    by auto
  from Cons.prems have rest: "\<forall>c \<in> set cs. lower (fst c) \<in> dom rates \<and> lower (snd c) \<in> dom rates"
    by simp
  show ?case
    unfolding c uom_loop.simps uom_pass_rows [OF ab] sum.case Cons.IH [OF rest]
    using ab by (auto simp: c)
qed

lemma convert_price_for_uom_rows:
  assumes "\<forall>row \<in> set df. lower (Initial_Unit row) \<in> dom rates \<and> lower (Final_Unit row) \<in> dom rates"
  shows "convert_price_for_uom rates df =
     Inr (map (\<lambda>row. row\<lparr>UOM_Converted_Price :=
                                 Some (Initial_Price row *
                                   (the (rates (lower (Initial_Unit row))) /
                                    the (rates (lower (Final_Unit row)))))\<rparr>) df)"
proof -
  from assms have "\<forall>c \<in> set (unique_uom_combos df).
      lower (fst c) \<in> dom rates \<and> lower (snd c) \<in> dom rates"
    by (auto simp: set_unique_uom_combos)
  from uom_loop_rows [OF this, of df] show ?thesis
    by (simp add: convert_price_for_uom_def set_unique_uom_combos cong: map_cong)
qed

text \<open>A unit of a pair that is no key of the table ends the loop with \<^verbatim>\<open>KeyError\<close>.\<close>

lemma uom_pass_raises:
  "rates (lower (fst c)) = None \<or> rates (lower (snd c)) = None \<Longrightarrow>
     \<exists>u. uom_pass rates c df = Inl (KeyError u) \<and> rates u = None"
  by (auto simp: uom_pass_def Let_def split: option.splits)

lemma uom_pass_returns_or_raises:
  "(\<exists>df'. uom_pass rates c df = Inr df') \<or>
   (\<exists>u. uom_pass rates c df = Inl (KeyError u) \<and> rates u = None)"
  by (auto simp: uom_pass_def Let_def split: option.splits)

lemma uom_loop_raises:
  "\<exists>c \<in> set cs. rates (lower (fst c)) = None \<or> rates (lower (snd c)) = None \<Longrightarrow>
     \<exists>u. uom_loop rates cs df = Inl (KeyError u) \<and> rates u = None"
proof (induction cs arbitrary: df)
  case Nil
  then show ?case by simp
next
  case (Cons c cs)
  show ?case
  proof (cases "rates (lower (fst c)) = None \<or> rates (lower (snd c)) = None")
    case True
    from uom_pass_raises [OF this, of df] show ?thesis by auto
  next
    case False
    with Cons.prems have "\<exists>c \<in> set cs. rates (lower (fst c)) = None \<or> rates (lower (snd c)) = None"
      by auto
    from Cons.IH [OF this] uom_pass_returns_or_raises [of rates c df] show ?thesis
      by auto
  qed
qed

lemma convert_price_for_uom_raises:
  assumes "\<exists>row \<in> set df. rates (lower (Initial_Unit row)) = None \<or> rates (lower (Final_Unit row)) = None"
  shows "\<exists>u. convert_price_for_uom rates df = Inl (KeyError u) \<and> rates u = None"
proof -
  from assms have "\<exists>c \<in> set (unique_uom_combos df).
      rates (lower (fst c)) = None \<or> rates (lower (snd c)) = None"
    by (auto simp: set_unique_uom_combos)
  from uom_loop_raises [OF this] show ?thesis by (simp add: convert_price_for_uom_def)
qed

text \<open>
  Claim C7, as stated: for every table and every pair of units present in it whose units are
  both in the conversion table, the rows of that pair receive the converted price. In a
  table whose first pair is kg to stone, with stone no key of the table, the first pass
  raises \<^verbatim>\<open>KeyError\<close> at line 254, before any row is written: the pair kg to lb is present and
  both of its units are keys, and its rows receive nothing.
\<close>

theorem unknown_unit_aborts_every_pair:
  "convert_price_for_uom mass_rates items_unknown_unit = Inl (KeyError ''stone'')
   \<and> (''kg'', ''lb'') \<in> set (unique_uom_combos items_unknown_unit)
   \<and> mass_rates (lower ''kg'') = Some 1.0
   \<and> mass_rates (lower ''lb'') = Some 0.453592"
  by (simp add: convert_price_for_uom_def unique_uom_combos_def items_unknown_unit_def
        uom_pass_def mass_rates_def lower_def lower_char_def Let_def)

text \<open>
  Claim C7, amended: when the units of every pair present in the table are keys of the
  conversion table, \<^verbatim>\<open>convert_price_for_uom\<close> returns the table in which every row has
  \<^verbatim>\<open>UOM Converted Price\<close> = \<^verbatim>\<open>Initial Price\<close> * (factor of its initial unit / factor of its
  final unit); when a unit of some pair present is no key, the call raises \<^verbatim>\<open>KeyError\<close> for
  a unit that is no key. The loop makes one pass for each pair present, and the pass of a
  pair whose units are keys writes that price to exactly the rows of the pair and leaves
  every other row as it was. With the factors 1.0 for kg and 0.453592 for lb a price of 10
  per kg becomes about 22.0462, as the example after the theorem computes.
\<close>

theorem convert_price_for_uom_converts_every_pair:
  "((\<forall>row \<in> set df. lower (Initial_Unit row) \<in> dom rates
                      \<and> lower (Final_Unit row) \<in> dom rates) \<longrightarrow>
      (\<exists>df'. convert_price_for_uom rates df = Inr df'
         \<and> length df' = length df
         \<and> (\<forall>i a b. i < length df \<and> rates (lower (Initial_Unit (df ! i))) = Some a
                     \<and> rates (lower (Final_Unit (df ! i))) = Some b \<longrightarrow>
               df' ! i = (df ! i)\<lparr>UOM_Converted_Price := Some (Initial_Price (df ! i) * (a / b))\<rparr>)))
   \<and> ((\<exists>row \<in> set df. lower (Initial_Unit row) \<notin> dom rates
                      \<or> lower (Final_Unit row) \<notin> dom rates) \<longrightarrow>
      (\<exists>u. convert_price_for_uom rates df = Inl (KeyError u) \<and> u \<notin> dom rates))
   \<and> (set (unique_uom_combos df) = (\<lambda>row. (Initial_Unit row, Final_Unit row)) ` set df)
   \<and> (\<forall>initial_unit final_unit a b.
         rates (lower initial_unit) = Some a \<and> rates (lower final_unit) = Some b \<longrightarrow>
           uom_pass rates (initial_unit, final_unit) df =
             Inr (map (\<lambda>row. if Initial_Unit row = initial_unit \<and> Final_Unit row = final_unit
                              then row\<lparr>UOM_Converted_Price := Some (Initial_Price row * (a / b))\<rparr>
                              else row) df))"
proof (intro conjI impI allI)
  assume "\<forall>row \<in> set df. lower (Initial_Unit row) \<in> dom rates
                      \<and> lower (Final_Unit row) \<in> dom rates"
  from convert_price_for_uom_rows [OF this]
  show "\<exists>df'. convert_price_for_uom rates df = Inr df'
         \<and> length df' = length df
         \<and> (\<forall>i a b. i < length df \<and> rates (lower (Initial_Unit (df ! i))) = Some a
                     \<and> rates (lower (Final_Unit (df ! i))) = Some b \<longrightarrow>
               df' ! i = (df ! i)\<lparr>UOM_Converted_Price := Some (Initial_Price (df ! i) * (a / b))\<rparr>)"
    by simp
next
  assume "\<exists>row \<in> set df. lower (Initial_Unit row) \<notin> dom rates
                      \<or> lower (Final_Unit row) \<notin> dom rates"
  then have "\<exists>row \<in> set df. rates (lower (Initial_Unit row)) = None
                      \<or> rates (lower (Final_Unit row)) = None"
    by (simp add: domIff)
  from convert_price_for_uom_raises [OF this]
  show "\<exists>u. convert_price_for_uom rates df = Inl (KeyError u) \<and> u \<notin> dom rates"
    by (simp add: domIff)
next
  show "set (unique_uom_combos df) = (\<lambda>row. (Initial_Unit row, Final_Unit row)) ` set df"
    by (rule set_unique_uom_combos)
next
  fix initial_unit final_unit a b
  assume "rates (lower initial_unit) = Some a \<and> rates (lower final_unit) = Some b"
  then show "uom_pass rates (initial_unit, final_unit) df =
             Inr (map (\<lambda>row. if Initial_Unit row = initial_unit \<and> Final_Unit row = final_unit
                              then row\<lparr>UOM_Converted_Price := Some (Initial_Price row * (a / b))\<rparr>
                              else row) df)"
    by (simp add: uom_pass_rows)
qed

theorem convert_price_for_uom_converts_every_pair_witness:
  "convert_price_for_uom mass_rates items =
     Inr [\<lparr>Initial_Unit = ''KG'', Final_Unit = ''lb'', Initial_Price = 10,
            UOM_Converted_Price = Some (10 * (1.0 / 0.453592))\<rparr>,
          \<lparr>Initial_Unit = ''lb'', Final_Unit = ''kg'', Initial_Price = 5,
            UOM_Converted_Price = Some (5 * (0.453592 / 1.0))\<rparr>]
   \<and> uom_pass mass_rates (''KG'', ''lb'') items =
     Inr [\<lparr>Initial_Unit = ''KG'', Final_Unit = ''lb'', Initial_Price = 10,
            UOM_Converted_Price = Some (10 * (1.0 / 0.453592))\<rparr>,
          \<lparr>Initial_Unit = ''lb'', Final_Unit = ''kg'', Initial_Price = 5, UOM_Converted_Price = None\<rparr>]
   \<and> \<bar>10 * (1.0 / 0.453592) - 22.0462\<bar> < (0.0001 :: real)"
proof -
  have kg: "mass_rates (lower ''KG'') = Some 1.0" "mass_rates (lower ''kg'') = Some 1.0"
    by (simp_all add: mass_rates_def lower_def lower_char_def)
  have lb: "mass_rates (lower ''lb'') = Some 0.453592"
    by (simp add: mass_rates_def lower_def lower_char_def)
  have all: "\<forall>row \<in> set items. lower (Initial_Unit row) \<in> dom mass_rates
                      \<and> lower (Final_Unit row) \<in> dom mass_rates"
    by (simp add: items_def mass_rates_def lower_def lower_char_def)
  note t = convert_price_for_uom_converts_every_pair [of items mass_rates]
  from t [THEN conjunct1, THEN mp, OF all]
  obtain df' where c: "convert_price_for_uom mass_rates items = Inr df'"
    and l: "length df' = length items"
    and r: "\<forall>i a b. i < length items \<and> mass_rates (lower (Initial_Unit (items ! i))) = Some a
                     \<and> mass_rates (lower (Final_Unit (items ! i))) = Some b \<longrightarrow>
               df' ! i = (items ! i)\<lparr>UOM_Converted_Price := Some (Initial_Price (items ! i) * (a / b))\<rparr>"
    by (elim exE conjE)
  from r [rule_format, of 0 "1.0" "0.453592"] kg lb
  have r0: "df' ! 0 = \<lparr>Initial_Unit = ''KG'', Final_Unit = ''lb'', Initial_Price = 10,
            UOM_Converted_Price = Some (10 * (1.0 / 0.453592))\<rparr>"
    by (simp add: items_def)
  from r [rule_format, of 1 "0.453592" "1.0"] kg lb
  have r1: "df' ! 1 = \<lparr>Initial_Unit = ''lb'', Final_Unit = ''kg'', Initial_Price = 5,
            UOM_Converted_Price = Some (5 * (0.453592 / 1.0))\<rparr>"
    by (simp add: items_def)
  from l have "df' = [df' ! 0, df' ! 1]"
    by (cases df'; cases "tl df'") (auto simp: items_def)
  with r0 r1 c have whole: "convert_price_for_uom mass_rates items =
     Inr [\<lparr>Initial_Unit = ''KG'', Final_Unit = ''lb'', Initial_Price = 10,
            UOM_Converted_Price = Some (10 * (1.0 / 0.453592))\<rparr>,
          \<lparr>Initial_Unit = ''lb'', Final_Unit = ''kg'', Initial_Price = 5,
            UOM_Converted_Price = Some (5 * (0.453592 / 1.0))\<rparr>]"
    by simp
  from t [THEN conjunct2, THEN conjunct2, THEN conjunct2, rule_format, of "''KG''" "1.0" "''lb''" "0.453592"]
    kg lb
  have "uom_pass mass_rates (''KG'', ''lb'') items =
             Inr (map (\<lambda>row. if Initial_Unit row = ''KG'' \<and> Final_Unit row = ''lb''
                              then row\<lparr>UOM_Converted_Price := Some (Initial_Price row * (1.0 / 0.453592))\<rparr>
                              else row) items)"
    by simp
  then have pass: "uom_pass mass_rates (''KG'', ''lb'') items =
     Inr [\<lparr>Initial_Unit = ''KG'', Final_Unit = ''lb'', Initial_Price = 10,
            UOM_Converted_Price = Some (10 * (1.0 / 0.453592))\<rparr>,
          \<lparr>Initial_Unit = ''lb'', Final_Unit = ''kg'', Initial_Price = 5, UOM_Converted_Price = None\<rparr>]"
    by (simp add: items_def)
  from whole pass show ?thesis by simp
qed

end
